theory Spec2Isabelle
  imports Main "HOL-Library.Sublist"
begin

section \<open>Python values shared by the client and the server\<close>

text \<open>
  Strings are lists of code points below 256, so \<open>CHR 0xE9\<close> is the single
  character e-acute of the server's messages. Console output (\<open>print\<close>) and
  \<open>time.sleep\<close> are left out: no function modelled here reads them back.
\<close>

datatype exn_class =
    ValueError | KeyError | TypeError | AttributeError | EOFError
  | Timeout | ConnectTimeout | ConnectionError | HTTPError | RequestsJSONDecodeError
  | RequestException
  | PyException
  | OtherError string

text \<open>An exception object: its class and \<open>str(e)\<close>. Every class above derives from
  Python's \<open>Exception\<close>, which is what \<open>except Exception\<close> catches.\<close>

datatype exn = Exn (exn_cls: exn_class) (exn_msg: string)

text \<open>\<open>str.isspace\<close> on one code point below 256.\<close>

definition is_space :: "char \<Rightarrow> bool" where
  "is_space c =
     (let n = (of_char c :: nat)
      in (9 \<le> n \<and> n \<le> 13) \<or> (28 \<le> n \<and> n \<le> 32) \<or> n = 133 \<or> n = 160)"

text \<open>\<open>str.strip()\<close>: whitespace removed from both ends.\<close>

definition strip :: "string \<Rightarrow> string" where
  "strip s = rev (dropWhile is_space (rev (dropWhile is_space s)))"

text \<open>\<open>str.lower()\<close> on code points below 256: A-Z and the Latin-1 capitals
  (0xC0-0xDE without the multiplication sign 0xD7) move up by 32.\<close>

definition lower_char :: "char \<Rightarrow> char" where
  "lower_char c =
     (let n = (of_char c :: nat)
      in if (65 \<le> n \<and> n \<le> 90) \<or> (192 \<le> n \<and> n \<le> 222 \<and> n \<noteq> 215)
         then char_of (n + 32) else c)"

definition lower :: "string \<Rightarrow> string" where
  "lower s = map lower_char s"

text \<open>\<open>sep.join(xs)\<close>.\<close>

fun py_join :: "string \<Rightarrow> string list \<Rightarrow> string" where
  "py_join sep [] = []"
| "py_join sep [x] = x"
| "py_join sep (x # y # ys) = x @ sep @ py_join sep (y # ys)"

section \<open>The client: \<open>src/client/main.py\<close>\<close>

subsection \<open>Data\<close>

text \<open>A tool call of a completion response: \<open>tool_call.id\<close>,
  \<open>tool_call.function.name\<close>, \<open>tool_call.function.arguments\<close> (JSON text).\<close>

record tool_call =
  tc_id :: string
  tc_name :: string
  tc_arguments :: string

text \<open>\<open>response.choices[0].message\<close>: both fields may be \<open>None\<close>.\<close>

record response_message =
  rm_content :: "string option"
  rm_tool_calls :: "tool_call list option"

text \<open>\<open>result.content\<close> of a tool call: a list of content items, or a scalar text.
  An item either has a \<open>text\<close> attribute (a text item) or has none (an image or an
  embedded resource).\<close>

datatype item = TextItem string | NonTextItem

datatype content = ContentItems "item list" | ContentText string

record call_tool_result =
  ctr_content :: content
  ctr_isError :: bool

text \<open>What the lists \<open>messages\<close> and \<open>result_messages\<close> hold: the user dict of line 22,
  the response object appended as it is at line 38, the tool dict of lines 60-65
  (\<open>tool_call_id\<close>, \<open>name\<close>, \<open>content\<close>), and the assistant dict of lines 78-81 and 88.\<close>

datatype message =
    UserDict string
  | ResponseObj response_message
  | ToolDict string string content
  | AssistantDict "string option"

text \<open>One completion request: \<open>messages\<close> and \<open>tools\<close> as passed to
  \<open>chat.completions.create\<close>.\<close>

record 't request =
  req_messages :: "message list"
  req_tools :: "'t list"

text \<open>
  The collaborators. \<open>llm_create i r\<close> is the outcome of the \<open>i\<close>-th completion call of
  the run on request \<open>r\<close>, read up to \<open>response.choices[0].message\<close>; \<open>json_loads\<close> is
  \<open>json.loads\<close>; \<open>call_tool i name args\<close> is the outcome of the \<open>i\<close>-th
  \<open>session.call_tool\<close> of the run. \<open>Inl\<close> is a raised exception.
\<close>

record ('j, 't) env =
  llm_create :: "nat \<Rightarrow> 't request \<Rightarrow> exn + response_message"
  json_loads :: "string \<Rightarrow> exn + 'j"
  call_tool :: "nat \<Rightarrow> string \<Rightarrow> 'j \<Rightarrow> exn + call_tool_result"

text \<open>What the run did so far: the completion requests issued and the tool
  invocations made, oldest first.\<close>

record ('j, 't) world =
  requests :: "'t request list"
  invocations :: "(string \<times> 'j) list"

subsection \<open>Normalising a tool result (lines 50-54)\<close>

text \<open>\<open>str(item.text) for item in result_content\<close>: the first item without a
  \<open>text\<close> attribute raises \<open>AttributeError\<close>.\<close>

fun item_texts :: "item list \<Rightarrow> exn + string list" where
  "item_texts [] = Inr []"
| "item_texts (TextItem t # is) =
     (case item_texts is of Inl e \<Rightarrow> Inl e | Inr ts \<Rightarrow> Inr (t # ts))"
| "item_texts (NonTextItem # is) = Inl (Exn AttributeError ''text'')"

fun normalize :: "content \<Rightarrow> exn + content" where
  "normalize (ContentItems is) =
     (case item_texts is of
        Inl e \<Rightarrow> Inl e
      | Inr ts \<Rightarrow> Inr (ContentText (py_join [CHR 0x0A] ts)))"
| "normalize (ContentText s) = Inr (ContentText s)"

subsection \<open>\<open>PokeBot.process_query\<close>\<close>

text \<open>The loop of lines 40-66 over the tool calls still to dispatch. The result is the
  exception that left the loop, if any, with \<open>messages\<close> and the world at that point.\<close>

fun dispatch_tools ::
  "('j, 't) env \<Rightarrow> tool_call list \<Rightarrow> message list \<Rightarrow> ('j, 't) world
     \<Rightarrow> exn option \<times> message list \<times> ('j, 't) world" where
  "dispatch_tools E [] messages w = (None, messages, w)"
| "dispatch_tools E (tc # tcs) messages w =
     (case json_loads E (tc_arguments tc) of
        Inl e \<Rightarrow> (Some e, messages, w)
      | Inr args \<Rightarrow>
          (let w' = w\<lparr>invocations := invocations w @ [(tc_name tc, args)]\<rparr>
           in case call_tool E (length (invocations w)) (tc_name tc) args of
                Inl e \<Rightarrow> (Some e, messages, w')
              | Inr result \<Rightarrow>
                  (case normalize (ctr_content result) of
                     Inl e \<Rightarrow> (Some e, messages, w')
                   | Inr result_content \<Rightarrow>
                       dispatch_tools E tcs
                         (messages @ [ToolDict (tc_id tc) (tc_name tc) result_content]) w')))"

text \<open>\<open>if tool_calls:\<close> is false for \<open>None\<close> and for the empty list.\<close>

fun truthy_calls :: "tool_call list option \<Rightarrow> tool_call list" where
  "truthy_calls None = []"
| "truthy_calls (Some tcs) = tcs"

text \<open>One completion call: the request is logged, then answered by the collaborator.\<close>

definition complete ::
  "('j, 't) env \<Rightarrow> 't list \<Rightarrow> message list \<Rightarrow> ('j, 't) world
     \<Rightarrow> (exn + response_message) \<times> ('j, 't) world" where
  "complete E tools messages w =
     (let r = \<lparr>req_messages = messages, req_tools = tools\<rparr>
      in (llm_create E (length (requests w)) r, w\<lparr>requests := requests w @ [r]\<rparr>))"

text \<open>
  \<open>process_query\<close> with \<open>self.available_tools = tools\<close>. The result is what the call
  returns (\<open>result_messages\<close>) or raises, the local list \<open>messages\<close> as it stands when
  the call ends, and the world.
\<close>

definition process_query ::
  "('j, 't) env \<Rightarrow> 't list \<Rightarrow> string \<Rightarrow> ('j, 't) world
     \<Rightarrow> (exn + message list) \<times> message list \<times> ('j, 't) world" where
  "process_query E tools query w =
     (let messages = [UserDict query]
      in case complete E tools messages w of
           (Inl e, w1) \<Rightarrow> (Inl e, messages, w1)
         | (Inr response_message, w1) \<Rightarrow>
             (case truthy_calls (rm_tool_calls response_message) of
                [] \<Rightarrow> (Inr [AssistantDict (rm_content response_message)], messages, w1)
              | tc # tcs \<Rightarrow>
                  (case dispatch_tools E (tc # tcs) (messages @ [ResponseObj response_message]) w1 of
                     (Some e, messages', w2) \<Rightarrow> (Inl e, messages', w2)
                   | (None, messages', w2) \<Rightarrow>
                       (case complete E tools messages' w2 of
                          (Inl e, w3) \<Rightarrow> (Inl e, messages', w3)
                        | (Inr response2, w3) \<Rightarrow>
                            (Inr [AssistantDict (rm_content response2)], messages', w3)))))"

subsection \<open>\<open>PokeBot.chat_loop\<close>\<close>

text \<open>
  The loop of lines 98-107 over the lines still to come on standard input. At the end of
  input \<open>input()\<close> raises \<open>EOFError\<close>, the handler of line 106 catches it and the loop
  goes round again, for ever: the run then has no final world (\<open>None\<close>). What
  \<open>process_query\<close> returns or raises is dropped (line 104, line 106).
\<close>

partial_function (option) chat_loop ::
  "('j, 't) env \<Rightarrow> 't list \<Rightarrow> string list \<Rightarrow> ('j, 't) world \<Rightarrow> ('j, 't) world option" where
  "chat_loop E tools stdin w =
     (case stdin of
        [] \<Rightarrow> chat_loop E tools [] w
      | line # rest \<Rightarrow>
          (let query = strip line
           in if lower query = ''quit'' then Some w
              else chat_loop E tools rest (snd (snd (process_query E tools query w)))))"

section \<open>The server: \<open>src/web-client/pokemon-mcp-server/main.py\<close>\<close>

subsection \<open>Parsed JSON and the Python operations on it\<close>

text \<open>
  A value returned by \<open>response.json()\<close>. A \<open>JObj\<close> is a parsed dict in insertion
  order, its keys distinct; a lookup reads the first binding. Floats are not
  represented. The messages of the interpreter's own errors are those of CPython 3.11.
\<close>

datatype json =
    JNull | JBool bool | JInt int | JStr string
  | JList "json list"
  | JObj "(string \<times> json) list"

fun type_name :: "json \<Rightarrow> string" where
  "type_name JNull = ''NoneType''"
| "type_name (JBool b) = ''bool''"
| "type_name (JInt i) = ''int''"
| "type_name (JStr s) = ''str''"
| "type_name (JList xs) = ''list''"
| "type_name (JObj kvs) = ''dict''"

definition quoted :: "string \<Rightarrow> string" where
  "quoted s = [CHR 0x27] @ s @ [CHR 0x27]"

text \<open>\<open>x[k]\<close> for a string key \<open>k\<close>; \<open>str(KeyError(k))\<close> is the key in quotes.\<close>

fun subscript :: "json \<Rightarrow> string \<Rightarrow> exn + json" where
  "subscript (JObj kvs) k =
     (case map_of kvs k of None \<Rightarrow> Inl (Exn KeyError (quoted k)) | Some v \<Rightarrow> Inr v)"
| "subscript (JList xs) k =
     Inl (Exn TypeError ''list indices must be integers or slices, not str'')"
| "subscript (JStr s) k =
     Inl (Exn TypeError (''string indices must be integers, not '' @ quoted ''str''))"
| "subscript x k =
     Inl (Exn TypeError (quoted (type_name x) @ '' object is not subscriptable''))"

text \<open>\<open>x.get(k, [])\<close>.\<close>

fun get_or_empty :: "json \<Rightarrow> string \<Rightarrow> exn + json" where
  "get_or_empty (JObj kvs) k =
     (case map_of kvs k of None \<Rightarrow> Inr (JList []) | Some v \<Rightarrow> Inr v)"
| "get_or_empty x k =
     Inl (Exn AttributeError
       (quoted (type_name x) @ '' object has no attribute '' @ quoted ''get''))"

text \<open>The elements a \<open>for\<close> loop over the value visits: a dict yields its keys, a
  string its characters.\<close>

fun iterate :: "json \<Rightarrow> exn + json list" where
  "iterate (JList xs) = Inr xs"
| "iterate (JObj kvs) = Inr (map (\<lambda>kv. JStr (fst kv)) kvs)"
| "iterate (JStr s) = Inr (map (\<lambda>c. JStr [c]) s)"
| "iterate x = Inl (Exn TypeError (quoted (type_name x) @ '' object is not iterable''))"

text \<open>A value that counts as an integer in arithmetic and in comparisons: \<open>bool\<close> is
  a subclass of \<open>int\<close>.\<close>

fun as_number :: "json \<Rightarrow> int option" where
  "as_number (JInt i) = Some i"
| "as_number (JBool b) = Some (if b then 1 else 0)"
| "as_number x = None"

text \<open>\<open>total_stats += v\<close>.\<close>

definition add_to :: "int \<Rightarrow> json \<Rightarrow> exn + int" where
  "add_to total_stats v =
     (case as_number v of
        Some n \<Rightarrow> Inr (total_stats + n)
      | None \<Rightarrow> Inl (Exn TypeError (''unsupported operand type(s) for +=: '' @ quoted ''int''
                        @ '' and '' @ quoted (type_name v))))"



text \<open>A dict with JSON keys, in insertion order. Keys are compared as Python compares
  them (\<open>1 == True\<close>); a list or a dict is not hashable. Storing under a key that is
  present replaces the value and keeps the key and its place.\<close>

definition key_eq :: "json \<Rightarrow> json \<Rightarrow> bool" where
  "key_eq a b =
     (case (as_number a, as_number b) of
        (Some m, Some n) \<Rightarrow> m = n
      | _ \<Rightarrow> a = b)"

fun hashable :: "json \<Rightarrow> bool" where
  "hashable (JList xs) = False"
| "hashable (JObj kvs) = False"
| "hashable x = True"

fun dict_set :: "(json \<times> json) list \<Rightarrow> json \<Rightarrow> json \<Rightarrow> (json \<times> json) list" where
  "dict_set [] k v = [(k, v)]"
| "dict_set ((k', v') # d) k v =
     (if key_eq k' k then (k', v) # d else (k', v') # dict_set d k v)"

definition setitem :: "(json \<times> json) list \<Rightarrow> json \<Rightarrow> json \<Rightarrow> exn + (json \<times> json) list" where
  "setitem d k v =
     (if hashable k then Inr (dict_set d k v)
      else Inl (Exn TypeError (''unhashable type: '' @ quoted (type_name k))))"


subsection \<open>HTTP\<close>

text \<open>
  A response of \<open>requests.get\<close>: its status, the text of the \<open>HTTPError\<close> that
  \<open>raise_for_status\<close> raises for it, and what \<open>.json()\<close> returns or raises. The
  upstream service is a function \<open>H\<close>: \<open>H i url\<close> is the outcome of the \<open>i\<close>-th
  \<open>requests.get\<close> of one tool call. The log lists the URLs requested, oldest first.
\<close>

record response =
  status_code :: nat
  http_error :: string
  json_result :: "exn + json"

type_synonym http = "nat \<Rightarrow> json \<Rightarrow> exn + response"

definition http_get :: "http \<Rightarrow> json \<Rightarrow> json list \<Rightarrow> (exn + response) \<times> json list" where
  "http_get H url log = (H (length log) url, log @ [url])"

definition raise_for_status :: "response \<Rightarrow> exn + unit" where
  "raise_for_status r =
     (if 400 \<le> status_code r \<and> status_code r < 600
      then Inl (Exn HTTPError (http_error r)) else Inr ())"

text \<open>The class tests of the \<open>except\<close> clauses: \<open>ConnectTimeout\<close> derives from both
  \<open>ConnectionError\<close> and \<open>Timeout\<close>, and all of them from \<open>RequestException\<close>.\<close>

fun is_timeout :: "exn_class \<Rightarrow> bool" where
  "is_timeout Timeout = True"
| "is_timeout ConnectTimeout = True"
| "is_timeout c = False"

fun is_connection_error :: "exn_class \<Rightarrow> bool" where
  "is_connection_error ConnectionError = True"
| "is_connection_error ConnectTimeout = True"
| "is_connection_error c = False"

fun is_request_exception :: "exn_class \<Rightarrow> bool" where
  "is_request_exception Timeout = True"
| "is_request_exception ConnectTimeout = True"
| "is_request_exception ConnectionError = True"
| "is_request_exception HTTPError = True"
| "is_request_exception RequestsJSONDecodeError = True"
| "is_request_exception RequestException = True"
| "is_request_exception c = False"

subsection \<open>Arguments and URLs\<close>

text \<open>The argument of a tool: a string, an integer, or any other object, of which only
  the truth value matters.\<close>

datatype arg = StrArg string | IntArg int | OtherArg bool

fun truthy :: "arg \<Rightarrow> bool" where
  "truthy (StrArg s) = (s \<noteq> [])"
| "truthy (IntArg i) = (i \<noteq> 0)"
| "truthy (OtherArg b) = b"

fun str_nat :: "nat \<Rightarrow> string" where
  "str_nat n = (if n < 10 then [char_of (48 + n)] else str_nat (n div 10) @ [char_of (48 + n mod 10)])"

definition str_int :: "int \<Rightarrow> string" where
  "str_int i = (if i < 0 then ''-'' @ str_nat (nat (- i)) else str_nat (nat i))"

definition base_url :: string where
  "base_url = ''https://pokeapi.co/api/v2''"

definition pokemon_url :: "string \<Rightarrow> json" where
  "pokemon_url name = JStr (base_url @ ''/pokemon/'' @ name)"

definition Pokemon :: string where
  "Pokemon = ''Pok'' @ [CHR 0xE9] @ ''mon''"

definition PokeAPI :: string where
  "PokeAPI = ''Pok'' @ [CHR 0xE9] @ ''API''"

subsection \<open>\<open>get_pokemon_stats\<close>\<close>

record stat_detail =
  sd_stat_name :: json
  sd_base_stat :: json
  sd_effort :: json

record stats_result =
  st_pokemon_name :: json
  st_pokemon_id :: json
  base_stats :: "(json \<times> json) list"
  total_base_stats :: int
  stat_details :: "stat_detail list"

text \<open>The loop of lines 165-183 over the entries still to visit, with \<open>base_stats\<close>,
  \<open>stat_details\<close> and \<open>total_stats\<close> as they stand.\<close>

fun stats_loop ::
  "json list \<Rightarrow> (json \<times> json) list \<Rightarrow> stat_detail list \<Rightarrow> int
     \<Rightarrow> exn + (json \<times> json) list \<times> stat_detail list \<times> int" where
  "stats_loop [] base details total_stats = Inr (base, details, total_stats)"
| "stats_loop (stat_entry # rest) base details total_stats =
     (case subscript stat_entry ''stat'' of Inl e \<Rightarrow> Inl e | Inr stat \<Rightarrow>
      case subscript stat ''name'' of Inl e \<Rightarrow> Inl e | Inr stat_name \<Rightarrow>
      case subscript stat_entry ''base_stat'' of Inl e \<Rightarrow> Inl e | Inr base_stat_value \<Rightarrow>
      case subscript stat_entry ''effort'' of Inl e \<Rightarrow> Inl e | Inr effort_value \<Rightarrow>
      case setitem base stat_name base_stat_value of Inl e \<Rightarrow> Inl e | Inr base' \<Rightarrow>
      case add_to total_stats base_stat_value of Inl e \<Rightarrow> Inl e | Inr total_stats' \<Rightarrow>
        stats_loop rest base'
          (details @ [\<lparr>sd_stat_name = stat_name, sd_base_stat = base_stat_value,
                        sd_effort = effort_value\<rparr>])
          total_stats')"

text \<open>Lines 160-194: from the parsed reply to the result.\<close>

definition stats_of_data :: "json \<Rightarrow> exn + stats_result" where
  "stats_of_data pokemon_data =
     (case subscript pokemon_data ''stats'' of Inl e \<Rightarrow> Inl e | Inr stats \<Rightarrow>
      case iterate stats of Inl e \<Rightarrow> Inl e | Inr entries \<Rightarrow>
      case stats_loop entries [] [] 0 of Inl e \<Rightarrow> Inl e | Inr (base, details, total_stats) \<Rightarrow>
      case subscript pokemon_data ''name'' of Inl e \<Rightarrow> Inl e | Inr name \<Rightarrow>
      case subscript pokemon_data ''id'' of Inl e \<Rightarrow> Inl e | Inr ident \<Rightarrow>
        Inr \<lparr>st_pokemon_name = name, st_pokemon_id = ident, base_stats = base,
             total_base_stats = total_stats, stat_details = details\<rparr>)"

text \<open>The \<open>try\<close> block of lines 147-194; \<open>pokemon_name\<close> is the argument as given.\<close>

definition stats_try :: "http \<Rightarrow> string \<Rightarrow> string \<Rightarrow> (exn + stats_result) \<times> json list" where
  "stats_try H pokemon_name clean_name =
     (case http_get H (pokemon_url clean_name) [] of
        (Inl e, log) \<Rightarrow> (Inl e, log)
      | (Inr response, log) \<Rightarrow>
          (if status_code response = 404
           then Inl (Exn ValueError (Pokemon @ '' '' @ quoted pokemon_name
                  @ '' not found. Please check the spelling and try again.''))
           else case raise_for_status response of Inl e \<Rightarrow> Inl e | Inr u \<Rightarrow>
                case json_result response of Inl e \<Rightarrow> Inl e | Inr pokemon_data \<Rightarrow>
                  stats_of_data pokemon_data,
           log))"

text \<open>The \<open>except\<close> clauses of lines 196-213, tried in order: what is raised for an
  exception \<open>e\<close> that leaves the \<open>try\<close> block.\<close>

definition stats_except :: "exn \<Rightarrow> exn" where
  "stats_except e =
     (if is_timeout (exn_cls e) then
        Exn RequestException
          (''Request timed out while fetching '' @ Pokemon @ '' data. Please try again.'')
      else if is_connection_error (exn_cls e) then
        Exn RequestException
          (''Unable to connect to '' @ PokeAPI @ ''. Please check your internet connection.'')
      else if is_request_exception (exn_cls e) then
        Exn RequestException (''Failed to fetch '' @ Pokemon @ '' data: '' @ exn_msg e)
      else if exn_cls e = KeyError then
        Exn PyException (''Unexpected API response format. Missing expected field: '' @ exn_msg e)
      else
        Exn PyException (''An unexpected error occurred while processing '' @ Pokemon
          @ '' stats: '' @ exn_msg e))"

text \<open>The result is what the tool returns or raises, and the URLs it requested.\<close>

definition get_pokemon_stats :: "http \<Rightarrow> arg \<Rightarrow> (exn + stats_result) \<times> json list" where
  "get_pokemon_stats H arg =
     (case arg of
        StrArg pokemon_name \<Rightarrow>
          if pokemon_name = [] \<or> strip pokemon_name = []
          then (Inl (Exn ValueError ''Pokemon name cannot be empty''), [])
          else (case stats_try H pokemon_name (strip (lower pokemon_name)) of
                  (Inl e, log) \<Rightarrow> (Inl (stats_except e), log)
                | (Inr result, log) \<Rightarrow> (Inr result, log))
      | _ \<Rightarrow> (Inl (Exn ValueError ''Pokemon name must be a string''), []))"

subsection \<open>\<open>get_pokemon_abilities\<close>\<close>

text \<open>An entry of \<open>result["abilities"]\<close>: the three keys of lines 56-60 and, when the
  detail fetch went through, \<open>description\<close>, \<open>effect\<close> and \<open>generation\<close>
  (lines 89-95).\<close>

record ability_info =
  ai_name :: json
  ai_is_hidden :: json
  ai_slot :: json
  ai_detail :: "(string \<times> json \<times> json) option"

record abilities_result =
  ab_pokemon_name :: json
  ab_pokemon_id :: json
  abilities :: "ability_info list"

text \<open>\<open>t.replace("\n", " ").replace("\f", " ")\<close>.\<close>

fun replace_breaks :: "json \<Rightarrow> exn + string" where
  "replace_breaks (JStr s) =
     Inr (map (\<lambda>c. if c = CHR 0x0A \<or> c = CHR 0x0C then CHR '' '' else c) s)"
| "replace_breaks x =
     Inl (Exn AttributeError
       (quoted (type_name x) @ '' object has no attribute '' @ quoted ''replace''))"

text \<open>The loop of lines 74-81: the first English flavor text, or the default.\<close>

fun find_description :: "json list \<Rightarrow> exn + string" where
  "find_description [] = Inr ''No description available''"
| "find_description (flavor_text # rest) =
     (case subscript flavor_text ''language'' of Inl e \<Rightarrow> Inl e | Inr language \<Rightarrow>
      case subscript language ''name'' of Inl e \<Rightarrow> Inl e | Inr name \<Rightarrow>
        if name = JStr ''en''
        then (case subscript flavor_text ''flavor_text'' of
                Inl e \<Rightarrow> Inl e | Inr t \<Rightarrow> replace_breaks t)
        else find_description rest)"

text \<open>The loop of lines 84-87: the first English effect, or the default.\<close>

fun find_effect :: "json list \<Rightarrow> exn + json" where
  "find_effect [] = Inr (JStr ''No effect description available'')"
| "find_effect (effect_entry # rest) =
     (case subscript effect_entry ''language'' of Inl e \<Rightarrow> Inl e | Inr language \<Rightarrow>
      case subscript language ''name'' of Inl e \<Rightarrow> Inl e | Inr name \<Rightarrow>
        if name = JStr ''en'' then subscript effect_entry ''effect''
        else find_effect rest)"

text \<open>Lines 70-95: from the parsed ability reply to the three detail fields.\<close>

definition detail_of_data :: "json \<Rightarrow> exn + string \<times> json \<times> json" where
  "detail_of_data ability_detail =
     (case get_or_empty ability_detail ''flavor_text_entries'' of Inl e \<Rightarrow> Inl e | Inr fs \<Rightarrow>
      case iterate fs of Inl e \<Rightarrow> Inl e | Inr flavor_texts \<Rightarrow>
      case find_description flavor_texts of Inl e \<Rightarrow> Inl e | Inr description \<Rightarrow>
      case get_or_empty ability_detail ''effect_entries'' of Inl e \<Rightarrow> Inl e | Inr es \<Rightarrow>
      case iterate es of Inl e \<Rightarrow> Inl e | Inr effect_entries \<Rightarrow>
      case find_effect effect_entries of Inl e \<Rightarrow> Inl e | Inr effect \<Rightarrow>
      case subscript ability_detail ''generation'' of Inl e \<Rightarrow> Inl e | Inr generation \<Rightarrow>
      case subscript generation ''name'' of Inl e \<Rightarrow> Inl e | Inr generation_name \<Rightarrow>
        Inr (description, effect, generation_name))"

text \<open>The inner \<open>try\<close> block of lines 63-97.\<close>

definition detail_try ::
  "http \<Rightarrow> json \<Rightarrow> json list \<Rightarrow> (exn + string \<times> json \<times> json) \<times> json list" where
  "detail_try H ability_entry log =
     (case subscript ability_entry ''ability'' of Inl e \<Rightarrow> (Inl e, log) | Inr ability \<Rightarrow>
      case subscript ability ''url'' of Inl e \<Rightarrow> (Inl e, log) | Inr ability_url \<Rightarrow>
      case http_get H ability_url log of
        (Inl e, log') \<Rightarrow> (Inl e, log')
      | (Inr ability_response, log') \<Rightarrow>
          (case raise_for_status ability_response of Inl e \<Rightarrow> Inl e | Inr u \<Rightarrow>
           case json_result ability_response of Inl e \<Rightarrow> Inl e | Inr ability_detail \<Rightarrow>
             detail_of_data ability_detail,
           log'))"

text \<open>The loop of lines 55-104 over the entries still to visit. The handler of line 99
  swallows a \<open>RequestException\<close> of the inner block: the entry is then appended
  without its detail fields.\<close>

fun abilities_loop ::
  "http \<Rightarrow> json list \<Rightarrow> ability_info list \<Rightarrow> json list
     \<Rightarrow> (exn + ability_info list) \<times> json list" where
  "abilities_loop H [] infos log = (Inr infos, log)"
| "abilities_loop H (ability_entry # rest) infos log =
     (case subscript ability_entry ''ability'' of Inl e \<Rightarrow> (Inl e, log) | Inr ability \<Rightarrow>
      case subscript ability ''name'' of Inl e \<Rightarrow> (Inl e, log) | Inr name \<Rightarrow>
      case subscript ability_entry ''is_hidden'' of Inl e \<Rightarrow> (Inl e, log) | Inr is_hidden \<Rightarrow>
      case subscript ability_entry ''slot'' of Inl e \<Rightarrow> (Inl e, log) | Inr slot \<Rightarrow>
        (let ability_info =
               \<lparr>ai_name = name, ai_is_hidden = is_hidden, ai_slot = slot, ai_detail = None\<rparr>
         in case detail_try H ability_entry log of
              (Inl e, log') \<Rightarrow>
                if is_request_exception (exn_cls e)
                then abilities_loop H rest (infos @ [ability_info]) log'
                else (Inl e, log')
            | (Inr detail, log') \<Rightarrow>
                abilities_loop H rest (infos @ [ability_info\<lparr>ai_detail := Some detail\<rparr>]) log'))"

text \<open>
  \<open>result["abilities"].sort(key=lambda x: x["slot"])\<close>: a stable sort. Slots that are
  all integers, or all strings (ordered by code point), are sorted; fewer than two
  entries are never compared; any other mix raises \<open>TypeError\<close> at the first
  comparison. Python also orders list-valued slots; such replies are outside the
  model, which reports them as a \<open>TypeError\<close>.
\<close>

fun str_less :: "string \<Rightarrow> string \<Rightarrow> bool" where
  "str_less [] [] = False"
| "str_less [] (y # ys) = True"
| "str_less (x # xs) [] = False"
| "str_less (x # xs) (y # ys) =
     ((of_char x :: nat) < of_char y \<or> (x = y \<and> str_less xs ys))"

fun slot_less :: "json \<Rightarrow> json \<Rightarrow> bool" where
  "slot_less (JStr a) (JStr b) = str_less a b"
| "slot_less a b =
     (case (as_number a, as_number b) of (Some m, Some n) \<Rightarrow> m < n | _ \<Rightarrow> False)"

fun is_str :: "json \<Rightarrow> bool" where
  "is_str (JStr s) = True"
| "is_str x = False"

fun insert_by_slot :: "ability_info \<Rightarrow> ability_info list \<Rightarrow> ability_info list" where
  "insert_by_slot x [] = [x]"
| "insert_by_slot x (y # ys) =
     (if slot_less (ai_slot y) (ai_slot x) then y # insert_by_slot x ys else x # y # ys)"

definition sort_by_slot :: "ability_info list \<Rightarrow> exn + ability_info list" where
  "sort_by_slot xs =
     (if length xs \<le> 1 then Inr xs
      else if list_all (\<lambda>x. as_number (ai_slot x) \<noteq> None) xs
              \<or> list_all (\<lambda>x. is_str (ai_slot x)) xs
      then Inr (foldr insert_by_slot xs [])
      else Inl (Exn TypeError
             (quoted ''<'' @ '' not supported between instances of the slot values'')))"

text \<open>Lines 47-109: from the parsed reply to the result.\<close>

definition abilities_of_data ::
  "http \<Rightarrow> json \<Rightarrow> json list \<Rightarrow> (exn + abilities_result) \<times> json list" where
  "abilities_of_data H pokemon_data log =
     (case subscript pokemon_data ''name'' of Inl e \<Rightarrow> (Inl e, log) | Inr name \<Rightarrow>
      case subscript pokemon_data ''id'' of Inl e \<Rightarrow> (Inl e, log) | Inr ident \<Rightarrow>
      case subscript pokemon_data ''abilities'' of Inl e \<Rightarrow> (Inl e, log) | Inr ability_list \<Rightarrow>
      case iterate ability_list of Inl e \<Rightarrow> (Inl e, log) | Inr entries \<Rightarrow>
      case abilities_loop H entries [] log of
        (Inl e, log') \<Rightarrow> (Inl e, log')
      | (Inr ability_infos, log') \<Rightarrow>
          (case sort_by_slot ability_infos of
             Inl e \<Rightarrow> (Inl e, log')
           | Inr sorted_infos \<Rightarrow>
               (Inr \<lparr>ab_pokemon_name = name, ab_pokemon_id = ident, abilities = sorted_infos\<rparr>,
                log')))"

text \<open>The \<open>try\<close> block of lines 37-109; \<open>pokemon_name\<close> is the name after line 30.\<close>

definition abilities_try :: "http \<Rightarrow> string \<Rightarrow> (exn + abilities_result) \<times> json list" where
  "abilities_try H pokemon_name =
     (case http_get H (pokemon_url pokemon_name) [] of
        (Inl e, log) \<Rightarrow> (Inl e, log)
      | (Inr response, log) \<Rightarrow>
          if status_code response = 404
          then (Inl (Exn ValueError (Pokemon @ '' '' @ quoted pokemon_name @ '' not found'')), log)
          else (case raise_for_status response of Inl e \<Rightarrow> (Inl e, log) | Inr u \<Rightarrow>
                case json_result response of Inl e \<Rightarrow> (Inl e, log) | Inr pokemon_data \<Rightarrow>
                  abilities_of_data H pokemon_data log))"

text \<open>The \<open>except\<close> clauses of lines 111-124, tried in order.\<close>

definition abilities_except :: "exn \<Rightarrow> exn" where
  "abilities_except e =
     (if is_timeout (exn_cls e) then
        Exn RequestException ''Request timed out. Please try again.''
      else if is_connection_error (exn_cls e) then
        Exn RequestException ''Connection error. Please check your internet connection.''
      else if is_request_exception (exn_cls e) then
        Exn RequestException (''API request failed: '' @ exn_msg e)
      else if exn_cls e = KeyError then
        Exn PyException (''Unexpected API response structure. Missing key: '' @ exn_msg e)
      else
        Exn PyException (''An unexpected error occurred: '' @ exn_msg e))"

text \<open>Lines 37-124 for the name that lines 29-35 let through.\<close>

definition abilities_guarded :: "http \<Rightarrow> string \<Rightarrow> (exn + abilities_result) \<times> json list" where
  "abilities_guarded H pokemon_name =
     (case abilities_try H pokemon_name of
        (Inl e, log) \<Rightarrow> (Inl (abilities_except e), log)
      | (Inr result, log) \<Rightarrow> (Inr result, log))"

definition get_pokemon_abilities :: "http \<Rightarrow> arg \<Rightarrow> (exn + abilities_result) \<times> json list" where
  "get_pokemon_abilities H arg =
     (if \<not> truthy arg
      then (Inl (Exn ValueError ''Pokemon identifier cannot be empty''), [])
      else case arg of
             StrArg pokemon_name \<Rightarrow> abilities_guarded H (strip (lower pokemon_name))
           | IntArg pokemon_id \<Rightarrow>
               if pokemon_id \<le> 0
               then (Inl (Exn ValueError ''Pokemon ID must be a positive integer''), [])
               else abilities_guarded H (str_int pokemon_id)
           | OtherArg b \<Rightarrow>
               (Inl (Exn ValueError ''Pokemon identifier must be a string or positive integer''),
                []))"

subsection \<open>Vocabulary for the claims about the server\<close>


subsection \<open>Vocabulary for the claims about the client\<close>

text \<open>The dict that lines 59-66 append for a tool call whose normalised result is \<open>c\<close>.\<close>

definition tool_dict :: "tool_call \<Rightarrow> content \<Rightarrow> message" where
  "tool_dict tc c = ToolDict (tc_id tc) (tc_name tc) c"

text \<open>The ids of the tool calls that the response objects of a message list carry, and
  the \<open>tool_call_id\<close>s of its tool dicts, both in list order.\<close>

fun requested_ids :: "message list \<Rightarrow> string list" where
  "requested_ids [] = []"
| "requested_ids (ResponseObj rm # ms) =
     map tc_id (truthy_calls (rm_tool_calls rm)) @ requested_ids ms"
| "requested_ids (m # ms) = requested_ids ms"

fun answered_ids :: "message list \<Rightarrow> string list" where
  "answered_ids [] = []"
| "answered_ids (ToolDict i n c # ms) = i # answered_ids ms"
| "answered_ids (m # ms) = answered_ids ms"

fun is_user :: "message \<Rightarrow> bool" where
  "is_user (UserDict q) = True"
| "is_user m = False"

text \<open>The first completion request of a turn on \<open>query\<close>.\<close>

definition first_request :: "'t list \<Rightarrow> string \<Rightarrow> 't request" where
  "first_request tools query = \<lparr>req_messages = [UserDict query], req_tools = tools\<rparr>"

text \<open>The world once that request has been issued.\<close>

definition asked :: "'t list \<Rightarrow> string \<Rightarrow> ('j, 't) world \<Rightarrow> ('j, 't) world" where
  "asked tools query w = w\<lparr>requests := requests w @ [first_request tools query]\<rparr>"

text \<open>The world after one turn for each of the given lines of input, in order.\<close>

fun run_turns ::
  "('j, 't) env \<Rightarrow> 't list \<Rightarrow> string list \<Rightarrow> ('j, 't) world \<Rightarrow> ('j, 't) world" where
  "run_turns E tools [] w = w"
| "run_turns E tools (line # rest) w =
     run_turns E tools rest (snd (snd (process_query E tools (strip line) w)))"

subsection \<open>Concrete collaborators\<close>

definition world0 :: "(json, unit) world" where
  "world0 = \<lparr>requests = [], invocations = []\<rparr>"

text \<open>The argument texts of two tool calls, and what \<open>json.loads\<close> returns for them.\<close>

definition charizard_text :: string where
  \<open>charizard_text = ''{"pokemon_name": "charizard"}''\<close>

definition missingno_text :: string where
  \<open>missingno_text = ''{"pokemon_name": "missingno"}''\<close>

definition charizard_args :: json where
  "charizard_args = JObj [(''pokemon_name'', JStr ''charizard'')]"

definition missingno_args :: json where
  "missingno_args = JObj [(''pokemon_name'', JStr ''missingno'')]"

text \<open>\<open>json.loads\<close> on the two argument texts; no other text is parsed below, and this
  table treats every other text as malformed.\<close>

definition loads_arguments :: "string \<Rightarrow> exn + json" where
  "loads_arguments s =
     (if s = charizard_text then Inr charizard_args
      else if s = missingno_text then Inr missingno_args
      else Inl (Exn (OtherError ''JSONDecodeError'') ''Expecting value''))"

definition stats_call :: tool_call where
  "stats_call =
     \<lparr>tc_id = ''call_1'', tc_name = ''get_pokemon_stats'', tc_arguments = charizard_text\<rparr>"

definition abilities_call :: tool_call where
  "abilities_call =
     \<lparr>tc_id = ''call_2'', tc_name = ''get_pokemon_abilities'', tc_arguments = missingno_text\<rparr>"

definition wants_tools :: response_message where
  "wants_tools = \<lparr>rm_content = None, rm_tool_calls = Some [stats_call, abilities_call]\<rparr>"

definition says :: "string \<Rightarrow> response_message" where
  "says s = \<lparr>rm_content = Some s, rm_tool_calls = None\<rparr>"

text \<open>A session that returns two text items for its first call and, for every later
  call, a result flagged as an error whose content is the error text: what the session
  returns when the server-side tool raises.\<close>

definition session_results :: "nat \<Rightarrow> string \<Rightarrow> json \<Rightarrow> exn + call_tool_result" where
  "session_results i name args =
     (if i = 0
      then Inr \<lparr>ctr_content = ContentItems [TextItem ''hp 78'', TextItem ''speed 100''],
                ctr_isError = False\<rparr>
      else Inr \<lparr>ctr_content = ContentItems [TextItem ''Error executing tool''],
                ctr_isError = True\<rparr>)"

text \<open>A model that always answers in text, with no tool call.\<close>

definition plain_env :: "(json, unit) env" where
  "plain_env =
     \<lparr>llm_create = (\<lambda>i r. Inr (says ''hello'')),
      json_loads = loads_arguments,
      call_tool = session_results\<rparr>"

text \<open>A model that asks for two tool calls in its first answer.\<close>

definition tool_env :: "(json, unit) env" where
  "tool_env =
     \<lparr>llm_create = (\<lambda>i r. if i = 0 then Inr wants_tools else Inr (says ''finished'')),
      json_loads = loads_arguments,
      call_tool = session_results\<rparr>"

text \<open>The same model with a second completion call that fails.\<close>

definition failing_env :: "(json, unit) env" where
  "failing_env =
     \<lparr>llm_create =
        (\<lambda>i r. if i = 0 then Inr wants_tools
               else Inl (Exn (OtherError ''APIConnectionError'') ''Connection error.'')),
      json_loads = loads_arguments,
      call_tool = session_results\<rparr>"

text \<open>The list \<open>messages\<close> of a turn on that model once both calls are answered.\<close>

definition tool_messages :: "message list" where
  "tool_messages =
     [UserDict ''stats?'', ResponseObj wants_tools,
      ToolDict ''call_1'' ''get_pokemon_stats'' (ContentText (''hp 78'' @ [CHR 0x0A] @ ''speed 100'')),
      ToolDict ''call_2'' ''get_pokemon_abilities'' (ContentText ''Error executing tool'')]"

subsection \<open>Concrete upstream services\<close>

text \<open>An upstream that answers every request with status 404.\<close>

definition not_found_http :: http where
  "not_found_http =
     (\<lambda>i url. Inr \<lparr>status_code = 404, http_error = ''404 Client Error: Not Found'',
                    json_result = Inl (Exn RequestsJSONDecodeError ''Expecting value'')\<rparr>)"

text \<open>An upstream that never answers in time.\<close>

definition timeout_http :: http where
  "timeout_http = (\<lambda>i url. Inl (Exn Timeout ''Read timed out.''))"

definition ok_response :: "json \<Rightarrow> response" where
  "ok_response body = \<lparr>status_code = 200, http_error = [], json_result = Inr body\<rparr>"

text \<open>A reply with no \<open>stats\<close> and no \<open>abilities\<close> key.\<close>

definition bare_http :: http where
  "bare_http = (\<lambda>i url. Inr (ok_response (JObj [(''name'', JStr ''charizard''), (''id'', JInt 6)])))"

definition stat_entry :: "string \<Rightarrow> int \<Rightarrow> int \<Rightarrow> json" where
  "stat_entry name base effort =
     JObj [(''base_stat'', JInt base), (''effort'', JInt effort),
           (''stat'', JObj [(''name'', JStr name), (''url'', JStr ''https://pokeapi.co/api/v2/stat/'')])]"

definition charizard :: json where
  "charizard =
     JObj [(''id'', JInt 6), (''name'', JStr ''charizard''),
           (''stats'',
            JList [stat_entry ''hp'' 78 0, stat_entry ''attack'' 84 0,
                   stat_entry ''defense'' 78 0, stat_entry ''special-attack'' 109 3,
                   stat_entry ''special-defense'' 85 0, stat_entry ''speed'' 100 0])]"

definition charizard_http :: http where
  "charizard_http = (\<lambda>i url. Inr (ok_response charizard))"






section \<open>Properties of the client\<close>

subsection \<open>The loops\<close>

lemma chat_loop_Some_quit:
  "chat_loop E tools stdin w = Some w' \<Longrightarrow> \<exists>line \<in> set stdin. lower (strip line) = ''quit''"
  by (rule chat_loop.raw_induct
        [where P = "\<lambda>E tools stdin w y. \<exists>line \<in> set stdin. lower (strip line) = ''quit''"])
     (fastforce simp: Let_def split: list.splits if_splits)

lemma chat_loop_Nil: "chat_loop E tools [] w = None"
proof (cases "chat_loop E tools [] w")
  case (Some w')
  from chat_loop_Some_quit [OF this] show ?thesis by simp
qed simp

lemma chat_loop_Cons:
  "chat_loop E tools (line # rest) w =
     (if lower (strip line) = ''quit'' then Some w
      else chat_loop E tools rest (snd (snd (process_query E tools (strip line) w))))"
  by (subst chat_loop.simps) (simp add: Let_def)



lemma filter_is_user_append_tool:
  "filter is_user (map2 tool_dict tcs cs) = []"
  by (induction tcs cs rule: list_induct2') (auto simp: tool_dict_def)

lemma answered_ids_tool_dicts:
  "length cs = length tcs \<Longrightarrow> answered_ids (map2 tool_dict tcs cs) = map tc_id tcs"
  by (induction tcs cs rule: list_induct2') (auto simp: tool_dict_def)

lemma requested_ids_tool_dicts:
  "requested_ids (map2 tool_dict tcs cs) = []"
  by (induction tcs cs rule: list_induct2') (auto simp: tool_dict_def)

lemma dispatch_tools_requests:
  "dispatch_tools E tcs msgs w = (r, msgs', w') \<Longrightarrow> requests w' = requests w"
  by (induction tcs arbitrary: msgs w) (auto simp: Let_def split: sum.splits)

lemma dispatch_tools_None:
  "dispatch_tools E tcs msgs w = (None, msgs', w') \<Longrightarrow>
     \<exists>cs args. length cs = length tcs \<and> length args = length tcs \<and>
       msgs' = msgs @ map2 tool_dict tcs cs \<and>
       invocations w' = invocations w @ zip (map tc_name tcs) args \<and>
       map (\<lambda>tc. json_loads E (tc_arguments tc)) tcs = map Inr args"
proof (induction tcs arbitrary: msgs w)
  case Nil
  then show ?case by simp
next
  case (Cons tc tcs)
  from Cons.prems obtain a res c where
    a: "json_loads E (tc_arguments tc) = Inr a" and
    res: "call_tool E (length (invocations w)) (tc_name tc) a = Inr res" and
    c: "normalize (ctr_content res) = Inr c" and
    rest: "dispatch_tools E tcs (msgs @ [ToolDict (tc_id tc) (tc_name tc) c])
             (w\<lparr>invocations := invocations w @ [(tc_name tc, a)]\<rparr>) = (None, msgs', w')"
    by (auto simp: Let_def split: sum.splits)
  from Cons.IH [OF rest] obtain cs args where
    "length cs = length tcs" "length args = length tcs"
    "msgs' = (msgs @ [ToolDict (tc_id tc) (tc_name tc) c]) @ map2 tool_dict tcs cs"
    "invocations w' = (invocations w @ [(tc_name tc, a)]) @ zip (map tc_name tcs) args"
    "map (\<lambda>tc. json_loads E (tc_arguments tc)) tcs = map Inr args"
    by auto
  then show ?case using a
    by (intro exI [of _ "c # cs"] exI [of _ "a # args"]) (simp add: tool_dict_def)
qed

lemma dispatch_tools_append:
  "dispatch_tools E (xs @ ys) msgs w =
     (case dispatch_tools E xs msgs w of
        (None, m, w1) \<Rightarrow> dispatch_tools E ys m w1
      | (Some e, m, w1) \<Rightarrow> (Some e, m, w1))"
  by (induction xs arbitrary: msgs w) (auto simp: Let_def split: sum.splits)

lemma chat_loop_terminates:
  "\<exists>line \<in> set stdin. lower (strip line) = ''quit'' \<Longrightarrow> \<exists>w'. chat_loop E tools stdin w = Some w'"
  by (induction stdin arbitrary: w) (auto simp: chat_loop_Cons)

lemma process_query_cases:
  assumes "process_query E tools q w = (res, messages, w')"
  obtains
    (first_fails) e where
      "llm_create E (length (requests w)) (first_request tools q) = Inl e"
      "res = Inl e" "messages = [UserDict q]"
      "w' = asked tools q w"
  | (plain) rm where
      "llm_create E (length (requests w)) (first_request tools q) = Inr rm"
      "truthy_calls (rm_tool_calls rm) = []"
      "res = Inr [AssistantDict (rm_content rm)]" "messages = [UserDict q]"
      "w' = asked tools q w"
  | (dispatch_raises) rm e where
      "llm_create E (length (requests w)) (first_request tools q) = Inr rm"
      "truthy_calls (rm_tool_calls rm) \<noteq> []"
      "dispatch_tools E (truthy_calls (rm_tool_calls rm)) [UserDict q, ResponseObj rm]
         (asked tools q w)
       = (Some e, messages, w')"
      "res = Inl e"
  | (second) rm w2 where
      "llm_create E (length (requests w)) (first_request tools q) = Inr rm"
      "truthy_calls (rm_tool_calls rm) \<noteq> []"
      "dispatch_tools E (truthy_calls (rm_tool_calls rm)) [UserDict q, ResponseObj rm]
         (asked tools q w)
       = (None, messages, w2)"
      "w' = w2\<lparr>requests := requests w2 @ [\<lparr>req_messages = messages, req_tools = tools\<rparr>]\<rparr>"
      "res = (case llm_create E (length (requests w2)) \<lparr>req_messages = messages, req_tools = tools\<rparr> of
                Inl e \<Rightarrow> Inl e | Inr r2 \<Rightarrow> Inr [AssistantDict (rm_content r2)])"
  using assms unfolding process_query_def complete_def Let_def first_request_def asked_def
  by (auto split: sum.splits list.splits option.splits prod.splits)

subsection \<open>The claims about the client\<close>

lemma py_join_Cons: "py_join sep (t # ts) = t @ concat (map (\<lambda>x. sep @ x) ts)"
  by (induction ts arbitrary: t) auto

lemma item_texts_TextItems: "item_texts (map TextItem ts) = Inr ts"
  by (induction ts) auto

lemma normalize_idem: "normalize c = Inr c' \<Longrightarrow> normalize c' = Inr c'"
  by (cases c) (auto split: sum.splits)

text \<open>C5: a list of items with text fields is stored as their texts joined with newline
  characters, a scalar text is stored unchanged, and normalising what normalisation
  returned changes nothing.\<close>

theorem normalize_joins_text:
  "normalize (ContentItems (map TextItem ts)) = Inr (ContentText (py_join [CHR 0x0A] ts))
   \<and> normalize (ContentText s) = Inr (ContentText s)
   \<and> (normalize c = Inr c' \<longrightarrow> normalize c' = Inr c')"
  by (auto simp: item_texts_TextItems dest: normalize_idem)

text \<open>Two text items, normalised once and then again.\<close>

theorem normalize_joins_text_witness:
  "normalize (ContentItems [TextItem ''hp 78'', TextItem ''speed 100''])
     = Inr (ContentText (''hp 78'' @ [CHR 0x0A] @ ''speed 100''))
   \<and> normalize (ContentText (''hp 78'' @ [CHR 0x0A] @ ''speed 100''))
     = Inr (ContentText (''hp 78'' @ [CHR 0x0A] @ ''speed 100''))"
  using normalize_joins_text [of "[''hp 78'', ''speed 100'']" "[]"
          "ContentItems [TextItem ''hp 78'', TextItem ''speed 100'']"
          "ContentText (''hp 78'' @ [CHR 0x0A] @ ''speed 100'')"]
  by simp

text \<open>C1, amended: in a turn that returns, the list \<open>messages\<close> ends as the user dict alone when
  the first response asks for no tool call, and otherwise as the user dict, the response
  object and one tool dict per requested call, in request order, each with the id and the
  name of its call. The final assistant dict is the one element of the returned list
  \<open>result_messages\<close> and is not appended to \<open>messages\<close>. \<open>call_tool\<close> is invoked
  once per requested call, in request order, on the parsed arguments, and not at all
  when no call is requested.\<close>

theorem process_query_messages:
  assumes first: "llm_create E (length (requests w)) (first_request tools q) = Inr rm"
      and calls: "truthy_calls (rm_tool_calls rm) = tcs"
      and ret: "process_query E tools q w = (Inr result_messages, messages, w')"
  shows "if tcs = []
         then messages = [UserDict q] \<and> result_messages = [AssistantDict (rm_content rm)]
              \<and> invocations w' = invocations w
              \<and> requests w' = requests w @ [first_request tools q]
         else \<exists>cs args final.
                length cs = length tcs \<and> length args = length tcs
                \<and> messages = [UserDict q, ResponseObj rm] @ map2 tool_dict tcs cs
                \<and> length messages = length tcs + 2
                \<and> result_messages = [AssistantDict final]
                \<and> invocations w' = invocations w @ zip (map tc_name tcs) args
                \<and> map (\<lambda>tc. json_loads E (tc_arguments tc)) tcs = map Inr args
                \<and> requests w' = requests w @ [first_request tools q,
                                    \<lparr>req_messages = messages, req_tools = tools\<rparr>]"
  using ret
proof (cases rule: process_query_cases)
  case (first_fails e)
  then show ?thesis by simp
next
  case (plain rm')
  with first calls show ?thesis by (simp add: asked_def)
next
  case (dispatch_raises rm' e)
  then show ?thesis by simp
next
  case (second rm' w2)
  with first calls have rm: "rm' = rm" and ne: "tcs \<noteq> []" by auto
  from second(3) [unfolded rm calls] dispatch_tools_None obtain cs args where
    *: "length cs = length tcs" "length args = length tcs"
       "messages = [UserDict q, ResponseObj rm] @ map2 tool_dict tcs cs"
       "invocations w2 = invocations (asked tools q w) @ zip (map tc_name tcs) args"
       "map (\<lambda>tc. json_loads E (tc_arguments tc)) tcs = map Inr args"
    by blast
  from second(3) have rq: "requests w2 = requests (asked tools q w)"
    by (rule dispatch_tools_requests)
  from second(5) obtain final where "result_messages = [AssistantDict final]"
    by (auto split: sum.splits)
  with * rq second(4) ne show ?thesis
    by (auto simp: asked_def)
qed

lemma loads_arguments_table:
  "loads_arguments charizard_text = Inr charizard_args"
  "loads_arguments missingno_text = Inr missingno_args"
  by (simp_all add: loads_arguments_def charizard_text_def missingno_text_def)

lemmas client_eval =
  process_query_def complete_def Let_def first_request_def asked_def world0_def
  plain_env_def tool_env_def failing_env_def session_results_def loads_arguments_table
  wants_tools_def says_def stats_call_def abilities_call_def tool_dict_def

lemma tool_turn:
  "process_query tool_env [] ''stats?'' world0 =
     (Inr [AssistantDict (Some ''finished'')],
      [UserDict ''stats?'', ResponseObj wants_tools,
       ToolDict ''call_1'' ''get_pokemon_stats'' (ContentText (''hp 78'' @ [CHR 0x0A] @ ''speed 100'')),
       ToolDict ''call_2'' ''get_pokemon_abilities'' (ContentText ''Error executing tool'')],
      \<lparr>requests =
         [first_request [] ''stats?'',
          \<lparr>req_messages =
             [UserDict ''stats?'', ResponseObj wants_tools,
              ToolDict ''call_1'' ''get_pokemon_stats'' (ContentText (''hp 78'' @ [CHR 0x0A] @ ''speed 100'')),
              ToolDict ''call_2'' ''get_pokemon_abilities'' (ContentText ''Error executing tool'')],
           req_tools = []\<rparr>],
       invocations = [(''get_pokemon_stats'', charizard_args), (''get_pokemon_abilities'', missingno_args)]\<rparr>)"
  by (simp add: client_eval)

lemma plain_turn:
  "process_query plain_env [] ''hi'' world0 =
     (Inr [AssistantDict (Some ''hello'')], [UserDict ''hi''],
      \<lparr>requests = [first_request [] ''hi''], invocations = []\<rparr>)"
  by (simp add: client_eval)

text \<open>A turn with two tool calls and a turn with none.\<close>

theorem process_query_messages_witness:
  "length (fst (snd (process_query tool_env [] ''stats?'' world0))) = 2 + 2
   \<and> fst (process_query tool_env [] ''stats?'' world0) = Inr [AssistantDict (Some ''finished'')]
   \<and> fst (snd (process_query plain_env [] ''hi'' world0)) = [UserDict ''hi'']
   \<and> fst (process_query plain_env [] ''hi'' world0) = Inr [AssistantDict (Some ''hello'')]"
proof -
  have t1: "llm_create tool_env (length (requests world0)) (first_request [] ''stats?'') = Inr wants_tools"
    by (simp add: client_eval)
  have t2: "truthy_calls (rm_tool_calls wants_tools) = [stats_call, abilities_call]"
    by (simp add: wants_tools_def)
  have p1: "llm_create plain_env (length (requests world0)) (first_request [] ''hi'') = Inr (says ''hello'')"
    by (simp add: client_eval)
  have p2: "truthy_calls (rm_tool_calls (says ''hello'')) = []"
    by (simp add: says_def)
  from process_query_messages [OF t1 t2 tool_turn] process_query_messages [OF p1 p2 plain_turn]
  show ?thesis
    by (auto simp: tool_turn plain_turn says_def)
qed

text \<open>C1 as stated fails: after a turn without tool calls \<open>messages\<close> holds one message,
  not two, and after a turn with two tool calls it holds four, not five; the assistant
  answer is in neither.\<close>

theorem assistant_appended_counterexample:
  "fst (snd (process_query plain_env [] ''hi'' world0)) = [UserDict ''hi'']
   \<and> length (fst (snd (process_query plain_env [] ''hi'' world0))) \<noteq> 2
   \<and> AssistantDict (Some ''hello'') \<notin> set (fst (snd (process_query plain_env [] ''hi'' world0)))
   \<and> length (fst (snd (process_query tool_env [] ''stats?'' world0))) \<noteq> 1 + (2 + 2)
   \<and> AssistantDict (Some ''finished'') \<notin> set (fst (snd (process_query tool_env [] ''stats?'' world0)))"
  by (simp add: tool_turn plain_turn)

lemma dispatch_tools_Some:
  "dispatch_tools E tcs msgs w = (Some e, msgs', w') \<Longrightarrow> filter is_user msgs' = filter is_user msgs \<and> prefix msgs msgs'"
proof (induction tcs arbitrary: msgs w)
  case Nil
  then show ?case by simp
next
  case (Cons tc tcs)
  show ?case
  proof (cases "json_loads E (tc_arguments tc)")
    case (Inl a)
    with Cons.prems show ?thesis by simp
  next
    case (Inr args)
    show ?thesis
    proof (cases "call_tool E (length (invocations w)) (tc_name tc) args")
      case (Inl a)
      with Inr Cons.prems show ?thesis by (simp add: Let_def)
    next
      case res: (Inr result)
      show ?thesis
      proof (cases "normalize (ctr_content result)")
        case (Inl a)
        with Inr res Cons.prems show ?thesis by (simp add: Let_def)
      next
        case c: (Inr c)
        with Inr res Cons.prems have
          "dispatch_tools E tcs (msgs @ [ToolDict (tc_id tc) (tc_name tc) c])
             (w\<lparr>invocations := invocations w @ [(tc_name tc, args)]\<rparr>) = (Some e, msgs', w')"
          by (simp add: Let_def)
        from Cons.IH [OF this] show ?thesis
          by (auto dest: append_prefixD)
      qed
    qed
  qed
qed

lemma dispatch_tools_messages:
  "dispatch_tools E tcs msgs w = (r, msgs', w') \<Longrightarrow>
     \<exists>cs args. length cs \<le> length tcs \<and> length args = length cs
       \<and> (r = None \<longrightarrow> length cs = length tcs)
       \<and> msgs' = msgs @ map2 tool_dict tcs cs
       \<and> (\<forall>i<length cs.
             json_loads E (tc_arguments (tcs ! i)) = Inr (args ! i)
             \<and> (\<exists>result.
                   call_tool E (length (invocations w) + i) (tc_name (tcs ! i)) (args ! i) = Inr result
                   \<and> normalize (ctr_content result) = Inr (cs ! i)))"
proof (induction tcs arbitrary: msgs w)
  case Nil
  then show ?case by simp
next
  case (Cons tc tcs)
  let ?none = "\<exists>cs args. length cs \<le> length (tc # tcs) \<and> length args = length cs
       \<and> (r = None \<longrightarrow> length cs = length (tc # tcs))
       \<and> msgs' = msgs @ map2 tool_dict (tc # tcs) cs
       \<and> (\<forall>i<length cs.
             json_loads E (tc_arguments ((tc # tcs) ! i)) = Inr (args ! i)
             \<and> (\<exists>result.
                   call_tool E (length (invocations w) + i) (tc_name ((tc # tcs) ! i)) (args ! i) = Inr result
                   \<and> normalize (ctr_content result) = Inr (cs ! i)))"
  have stop: ?none if "msgs' = msgs" "r \<noteq> None"
    using that by (intro exI [of _ "[]"]) simp
  show ?case
  proof (cases "json_loads E (tc_arguments tc)")
    case (Inl a)
    with Cons.prems stop show ?thesis by auto
  next
    case a: (Inr a)
    show ?thesis
    proof (cases "call_tool E (length (invocations w)) (tc_name tc) a")
      case (Inl x)
      with a Cons.prems stop show ?thesis by (auto simp: Let_def)
    next
      case res: (Inr result)
      show ?thesis
      proof (cases "normalize (ctr_content result)")
        case (Inl x)
        with a res Cons.prems stop show ?thesis by (auto simp: Let_def)
      next
        case c: (Inr c)
        let ?w = "w\<lparr>invocations := invocations w @ [(tc_name tc, a)]\<rparr>"
        from a res c Cons.prems have
          rest: "dispatch_tools E tcs (msgs @ [ToolDict (tc_id tc) (tc_name tc) c]) ?w = (r, msgs', w')"
          by (simp add: Let_def)
        from Cons.IH [OF rest] obtain cs args where
          *: "length cs \<le> length tcs" "length args = length cs"
             "r = None \<longrightarrow> length cs = length tcs"
             "msgs' = (msgs @ [ToolDict (tc_id tc) (tc_name tc) c]) @ map2 tool_dict tcs cs"
          and each: "\<And>i. i < length cs \<Longrightarrow>
             json_loads E (tc_arguments (tcs ! i)) = Inr (args ! i)
             \<and> (\<exists>result.
                   call_tool E (length (invocations ?w) + i) (tc_name (tcs ! i)) (args ! i) = Inr result
                   \<and> normalize (ctr_content result) = Inr (cs ! i))"
          by blast
        have "json_loads E (tc_arguments ((tc # tcs) ! i)) = Inr ((a # args) ! i)
             \<and> (\<exists>result.
                   call_tool E (length (invocations w) + i) (tc_name ((tc # tcs) ! i)) ((a # args) ! i) = Inr result
                   \<and> normalize (ctr_content result) = Inr ((c # cs) ! i))"
          if "i < length (c # cs)" for i
        proof (cases i)
          case 0
          with a res c show ?thesis by auto
        next
          case (Suc j)
          with that have "j < length cs" by simp
          from each [OF this] Suc show ?thesis by simp
        qed
        with * show ?thesis
          by (intro exI [of _ "c # cs"] exI [of _ "a # args"]) (simp add: tool_dict_def)
      qed
    qed
  qed
qed

text \<open>C2, amended: the completion requests of a turn are added to the log after those of
  earlier turns. The first carries the user dict of this turn alone. The second, if there
  is one, carries the list \<open>messages\<close> of this turn: the user dict, the response object
  that answered the first request, and one tool dict for each of its tool calls, in
  order, whose content is the normalised result of the \<open>call_tool\<close> made for that call
  in this turn. No message of an earlier turn is sent.\<close>

theorem requests_carry_current_turn:
  assumes "process_query E tools q w = (res, messages, w')"
  shows "(requests w' = requests w @ [first_request tools q]
          \<or> requests w' = requests w @ [first_request tools q,
                               \<lparr>req_messages = messages, req_tools = tools\<rparr>])
         \<and> filter is_user messages = [UserDict q]
         \<and> prefix [UserDict q] messages
         \<and> ((messages = [UserDict q] \<and> requests w' = requests w @ [first_request tools q])
            \<or> (\<exists>rm cs args.
                  llm_create E (length (requests w)) (first_request tools q) = Inr rm
                  \<and> length cs \<le> length (truthy_calls (rm_tool_calls rm))
                  \<and> length args = length cs
                  \<and> messages = [UserDict q, ResponseObj rm]
                                 @ map2 tool_dict (truthy_calls (rm_tool_calls rm)) cs
                  \<and> (\<forall>i<length cs.
                        json_loads E (tc_arguments (truthy_calls (rm_tool_calls rm) ! i)) = Inr (args ! i)
                        \<and> (\<exists>result.
                              call_tool E (length (invocations w) + i)
                                (tc_name (truthy_calls (rm_tool_calls rm) ! i)) (args ! i) = Inr result
                              \<and> normalize (ctr_content result) = Inr (cs ! i)))
                  \<and> (requests w' = requests w @ [first_request tools q]
                      \<or> (length cs = length (truthy_calls (rm_tool_calls rm))
                          \<and> requests w' = requests w @ [first_request tools q,
                                 \<lparr>req_messages = messages, req_tools = tools\<rparr>]))))"
  using assms
proof (cases rule: process_query_cases)
  case (first_fails e)
  then show ?thesis by (simp add: asked_def)
next
  case (plain rm)
  then show ?thesis by (simp add: asked_def)
next
  case (dispatch_raises rm e)
  from dispatch_tools_messages [OF dispatch_raises(3)] obtain cs args where
    *: "length cs \<le> length (truthy_calls (rm_tool_calls rm))" "length args = length cs"
       "messages = [UserDict q, ResponseObj rm] @ map2 tool_dict (truthy_calls (rm_tool_calls rm)) cs"
       "\<forall>i<length cs.
           json_loads E (tc_arguments (truthy_calls (rm_tool_calls rm) ! i)) = Inr (args ! i)
           \<and> (\<exists>result.
                 call_tool E (length (invocations (asked tools q w)) + i)
                   (tc_name (truthy_calls (rm_tool_calls rm) ! i)) (args ! i) = Inr result
                 \<and> normalize (ctr_content result) = Inr (cs ! i))"
    by blast
  have rq: "requests w' = requests w @ [first_request tools q]"
    using dispatch_tools_requests [OF dispatch_raises(3)] by (simp add: asked_def)
  have old: "filter is_user messages = [UserDict q] \<and> prefix [UserDict q] messages"
    using *(3) by (simp add: filter_is_user_append_tool)
  from *(4) have each: "\<forall>i<length cs.
           json_loads E (tc_arguments (truthy_calls (rm_tool_calls rm) ! i)) = Inr (args ! i)
           \<and> (\<exists>result.
                 call_tool E (length (invocations w) + i)
                   (tc_name (truthy_calls (rm_tool_calls rm) ! i)) (args ! i) = Inr result
                 \<and> normalize (ctr_content result) = Inr (cs ! i))"
    by (simp add: asked_def)
  from dispatch_raises(1) *(1,2,3) each rq old show ?thesis by blast
next
  case (second rm w2)
  from dispatch_tools_messages [OF second(3)] obtain cs args where
    *: "length cs = length (truthy_calls (rm_tool_calls rm))" "length args = length cs"
       "messages = [UserDict q, ResponseObj rm] @ map2 tool_dict (truthy_calls (rm_tool_calls rm)) cs"
       "\<forall>i<length cs.
           json_loads E (tc_arguments (truthy_calls (rm_tool_calls rm) ! i)) = Inr (args ! i)
           \<and> (\<exists>result.
                 call_tool E (length (invocations (asked tools q w)) + i)
                   (tc_name (truthy_calls (rm_tool_calls rm) ! i)) (args ! i) = Inr result
                 \<and> normalize (ctr_content result) = Inr (cs ! i))"
    by blast
  have rq: "requests w' = requests w @ [first_request tools q,
              \<lparr>req_messages = messages, req_tools = tools\<rparr>]"
    using dispatch_tools_requests [OF second(3)] second(4) by (simp add: asked_def)
  have old: "filter is_user messages = [UserDict q] \<and> prefix [UserDict q] messages"
    using *(3) by (simp add: filter_is_user_append_tool)
  from *(4) have each: "\<forall>i<length cs.
           json_loads E (tc_arguments (truthy_calls (rm_tool_calls rm) ! i)) = Inr (args ! i)
           \<and> (\<exists>result.
                 call_tool E (length (invocations w) + i)
                   (tc_name (truthy_calls (rm_tool_calls rm) ! i)) (args ! i) = Inr result
                 \<and> normalize (ctr_content result) = Inr (cs ! i))"
    by (simp add: asked_def)
  have le: "length cs \<le> length (truthy_calls (rm_tool_calls rm))" using *(1) by simp
  from second(1) le *(1,2,3) each rq old show ?thesis by blast
qed

lemma two_plain_turns:
  "chat_loop plain_env [] [''first'', ''second'', ''quit''] world0 =
     Some \<lparr>requests = [first_request [] ''first'', first_request [] ''second''],
           invocations = []\<rparr>"
proof -
  have s: "strip ''first'' = ''first''" "strip ''second'' = ''second''" "strip ''quit'' = ''quit''"
    "lower ''first'' = ''first''" "lower ''second'' = ''second''" "lower ''quit'' = ''quit''"
    by code_simp+
  have p: "process_query plain_env [] q w =
     (Inr [AssistantDict (Some ''hello'')], [UserDict q], asked [] q w)" for q w
    by (simp add: process_query_def complete_def plain_env_def says_def asked_def first_request_def Let_def)
  show ?thesis
    by (simp add: chat_loop_Cons s p asked_def world0_def)
qed

text \<open>The two requests of a turn with tool calls.\<close>

theorem requests_carry_current_turn_witness:
  "requests (snd (snd (process_query tool_env [] ''stats?'' world0))) =
     [first_request [] ''stats?'',
      \<lparr>req_messages = fst (snd (process_query tool_env [] ''stats?'' world0)), req_tools = []\<rparr>]
   \<and> filter is_user (fst (snd (process_query tool_env [] ''stats?'' world0))) = [UserDict ''stats?'']"
  using requests_carry_current_turn [OF tool_turn]
  by (simp add: tool_turn)

text \<open>C2 as stated fails: in a run of two turns the request of the second turn carries the
  second user message only.\<close>

theorem earlier_turns_counterexample:
  "chat_loop plain_env [] [''first'', ''second'', ''quit''] world0 =
     Some \<lparr>requests = [first_request [] ''first'', first_request [] ''second''],
           invocations = []\<rparr>
   \<and> req_messages (first_request [] ''second'') = [UserDict ''second'']
   \<and> UserDict ''first'' \<notin> set (req_messages (first_request [] ''second''))"
  by (simp add: two_plain_turns first_request_def)

text \<open>C3: when the completion request issued last in a turn fails, \<open>process_query\<close> raises
  that failure, \<open>messages\<close> is the list that the failing request carried, every tool call
  requested in it has its tool dict, and \<open>chat_loop\<close> goes on to the next line of
  input.\<close>

theorem failed_completion_keeps_messages:
  assumes run: "process_query E tools q w = (res, messages, w')"
      and fails: "llm_create E (length (requests w') - 1) (last (requests w')) = Inl e"
  shows "res = Inl e
         \<and> req_messages (last (requests w')) = messages
         \<and> requested_ids messages = answered_ids messages
         \<and> (strip line = q \<and> lower q \<noteq> ''quit'' \<longrightarrow>
              chat_loop E tools (line # rest) w = chat_loop E tools rest w')"
proof -
  have loop: "strip line = q \<and> lower q \<noteq> ''quit'' \<longrightarrow>
              chat_loop E tools (line # rest) w = chat_loop E tools rest w'"
    using run by (auto simp: chat_loop_Cons)
  from run show ?thesis
  proof (cases rule: process_query_cases)
    case (first_fails e')
    with fails loop show ?thesis by (simp add: asked_def first_request_def)
  next
    case (plain rm)
    with fails show ?thesis by (simp add: asked_def)
  next
    case (dispatch_raises rm e')
    from dispatch_tools_requests [OF dispatch_raises(3)] fails dispatch_raises(1)
    show ?thesis by (simp add: asked_def)
  next
    case (second rm w2)
    from dispatch_tools_None [OF second(3)] obtain cs args where
      *: "length cs = length (truthy_calls (rm_tool_calls rm))"
         "messages = [UserDict q, ResponseObj rm] @ map2 tool_dict (truthy_calls (rm_tool_calls rm)) cs"
         "invocations w2 = invocations (asked tools q w) @ zip (map tc_name (truthy_calls (rm_tool_calls rm))) args"
      by blast
    have rq: "requests w2 = requests (asked tools q w)"
      using second(3) by (rule dispatch_tools_requests)
    have "res = Inl e" using fails second(4,5) by simp
    moreover have "requested_ids messages = answered_ids messages"
      using * by (simp add: answered_ids_tool_dicts requested_ids_tool_dicts)
    ultimately show ?thesis using second(4) * loop by (simp add: asked_def)
  qed
qed

lemma failing_turn:
  "process_query failing_env [] ''stats?'' world0 =
     (Inl (Exn (OtherError ''APIConnectionError'') ''Connection error.''),
      tool_messages,
      \<lparr>requests =
         [first_request [] ''stats?'', \<lparr>req_messages = tool_messages, req_tools = []\<rparr>],
       invocations = [(''get_pokemon_stats'', charizard_args), (''get_pokemon_abilities'', missingno_args)]\<rparr>)"
  by (simp add: client_eval tool_messages_def)

text \<open>A turn whose second completion request fails.\<close>

theorem failed_completion_keeps_messages_witness:
  "fst (process_query failing_env [] ''stats?'' world0)
     = Inl (Exn (OtherError ''APIConnectionError'') ''Connection error.'')
   \<and> req_messages (last (requests (snd (snd (process_query failing_env [] ''stats?'' world0)))))
     = fst (snd (process_query failing_env [] ''stats?'' world0))
   \<and> requested_ids (fst (snd (process_query failing_env [] ''stats?'' world0)))
     = answered_ids (fst (snd (process_query failing_env [] ''stats?'' world0)))
   \<and> answered_ids (fst (snd (process_query failing_env [] ''stats?'' world0)))
     = [''call_1'', ''call_2'']"
proof -
  have fails:
    "llm_create failing_env
       (length (requests \<lparr>requests =
           [first_request [] ''stats?'', \<lparr>req_messages = tool_messages, req_tools = []\<rparr>],
         invocations = [(''get_pokemon_stats'', charizard_args),
                        (''get_pokemon_abilities'', missingno_args)]\<rparr>) - 1)
       (last (requests \<lparr>requests =
           [first_request [] ''stats?'', \<lparr>req_messages = tool_messages, req_tools = []\<rparr>],
         invocations = [(''get_pokemon_stats'', charizard_args),
                        (''get_pokemon_abilities'', missingno_args)]\<rparr>))
     = Inl (Exn (OtherError ''APIConnectionError'') ''Connection error.'')"
    by (simp add: failing_env_def)
  from failed_completion_keeps_messages [OF failing_turn fails]
  show ?thesis
    by (simp add: failing_turn) (simp add: tool_messages_def)
qed

lemma process_query_unfold:
  assumes first: "llm_create E (length (requests w)) (first_request tools q) = Inr rm"
      and calls: "truthy_calls (rm_tool_calls rm) = before @ tc # after"
  shows "process_query E tools q w =
      (case dispatch_tools E (before @ tc # after) [UserDict q, ResponseObj rm] (asked tools q w) of
         (Some e, messages', w2) \<Rightarrow> (Inl e, messages', w2)
       | (None, messages', w2) \<Rightarrow>
           (case complete E tools messages' w2 of
              (Inl e, w3) \<Rightarrow> (Inl e, messages', w3)
            | (Inr response2, w3) \<Rightarrow> (Inr [AssistantDict (rm_content response2)], messages', w3)))"
proof -
  obtain x xs where ne: "before @ tc # after = x # xs"
    by (cases before) auto
  show ?thesis
    unfolding process_query_def complete_def Let_def
    using first by (simp add: calls first_request_def asked_def) (simp add: ne)
qed


text \<open>An exception of \<open>call_tool\<close> itself, such as a closed connection, is caught
  nowhere in \<open>process_query\<close>: it ends the turn after the first completion request.\<close>

lemma call_tool_exception_leaves_turn:
  assumes first: "llm_create E (length (requests w)) (first_request tools q) = Inr rm"
      and calls: "truthy_calls (rm_tool_calls rm) = before @ tc # after"
      and before: "dispatch_tools E before [UserDict q, ResponseObj rm] (asked tools q w)
                     = (None, msgs1, w1)"
      and parsed: "json_loads E (tc_arguments tc) = Inr args"
      and raised: "call_tool E (length (invocations w1)) (tc_name tc) args = Inl e"
  shows "process_query E tools q w
           = (Inl e, msgs1, w1\<lparr>invocations := invocations w1 @ [(tc_name tc, args)]\<rparr>)"
    and "requests w1 = requests w @ [first_request tools q]"
proof -
  show "requests w1 = requests w @ [first_request tools q]"
    using dispatch_tools_requests [OF before] by (simp add: asked_def)
  show "process_query E tools q w
           = (Inl e, msgs1, w1\<lparr>invocations := invocations w1 @ [(tc_name tc, args)]\<rparr>)"
    using before parsed raised
    by (simp add: process_query_unfold [OF first calls] dispatch_tools_append Let_def)
qed


lemma process_query_requests:
  "\<exists>more. requests (snd (snd (process_query E tools q w))) = requests w @ first_request tools q # more"
proof -
  obtain res messages w' where run: "process_query E tools q w = (res, messages, w')"
    by (cases "process_query E tools q w") auto
  from run show ?thesis
  proof (cases rule: process_query_cases)
    case (dispatch_raises rm e)
    from dispatch_tools_requests [OF dispatch_raises(3)] run show ?thesis by (simp add: asked_def)
  next
    case (second rm w2)
    from dispatch_tools_requests [OF second(3)] second(4) run show ?thesis by (simp add: asked_def)
  qed (simp_all add: run asked_def)
qed

lemma chat_loop_until_quit:
  assumes "list_all (\<lambda>l. lower (strip l) \<noteq> ''quit'') pre" and "lower (strip final) = ''quit''"
  shows "\<exists>w' extra. chat_loop E tools (pre @ final # post) w = Some w'
           \<and> requests w' = requests w @ extra
           \<and> subseq (map (\<lambda>l. first_request tools (strip l)) pre) extra"
  using assms(1)
proof (induction pre arbitrary: w)
  case Nil
  with assms(2) show ?case by (simp add: chat_loop_Cons)
next
  case (Cons l pre)
  define w1 where "w1 = snd (snd (process_query E tools (strip l) w))"
  from process_query_requests [of E tools "strip l" w] obtain more where
    more: "requests w1 = requests w @ first_request tools (strip l) # more"
    by (auto simp: w1_def)
  from Cons.prems have "list_all (\<lambda>l. lower (strip l) \<noteq> ''quit'') pre" by simp
  from Cons.IH [OF this, of w1] obtain w' extra where
    *: "chat_loop E tools (pre @ final # post) w1 = Some w'"
       "requests w' = requests w1 @ extra"
       "subseq (map (\<lambda>l. first_request tools (strip l)) pre) extra"
    by blast
  have "chat_loop E tools ((l # pre) @ final # post) w = Some w'"
    using Cons.prems * by (simp add: chat_loop_Cons w1_def)
  moreover have "requests w' = requests w @ (first_request tools (strip l) # more @ extra)"
    using * more by simp
  moreover have "subseq (map (\<lambda>l. first_request tools (strip l)) (l # pre))
                   (first_request tools (strip l) # more @ extra)"
    using *(3) by (simp add: list_emb_append2)
  ultimately show ?case by blast
qed

lemma process_query_new_requests:
  "\<exists>new. requests (snd (snd (process_query E tools q w))) = requests w @ new
     \<and> length new \<le> 2
     \<and> list_all (\<lambda>r. hd (req_messages r) = UserDict q) new"
proof -
  obtain res messages w' where run: "process_query E tools q w = (res, messages, w')"
    by (cases "process_query E tools q w") auto
  from run show ?thesis
  proof (cases rule: process_query_cases)
    case (dispatch_raises rm e)
    from dispatch_tools_requests [OF dispatch_raises(3)] run show ?thesis
      by (simp add: asked_def first_request_def)
  next
    case (second rm w2)
    from dispatch_tools_None [OF second(3)] obtain cs where
      "messages = [UserDict q, ResponseObj rm] @ map2 tool_dict (truthy_calls (rm_tool_calls rm)) cs"
      by blast
    with dispatch_tools_requests [OF second(3)] second(4) run show ?thesis
      by (simp add: asked_def first_request_def)
  qed (simp_all add: run asked_def first_request_def)
qed

lemma run_turns_requests:
  "\<exists>extra. requests (run_turns E tools pre w) = requests w @ extra
     \<and> length extra \<le> 2 * length pre
     \<and> list_all (\<lambda>r. hd (req_messages r) \<in> set (map (\<lambda>l. UserDict (strip l)) pre)) extra"
proof (induction pre arbitrary: w)
  case Nil
  then show ?case by simp
next
  case (Cons l pre)
  define w1 where "w1 = snd (snd (process_query E tools (strip l) w))"
  from process_query_new_requests [of E tools "strip l" w] obtain new where
    new: "requests w1 = requests w @ new" "length new \<le> 2"
         "list_all (\<lambda>r. hd (req_messages r) = UserDict (strip l)) new"
    by (auto simp: w1_def)
  from Cons.IH [of w1] obtain extra where
    extra: "requests (run_turns E tools pre w1) = requests w1 @ extra"
           "length extra \<le> 2 * length pre"
           "list_all (\<lambda>r. hd (req_messages r) \<in> set (map (\<lambda>l. UserDict (strip l)) pre)) extra"
    by blast
  have "requests (run_turns E tools (l # pre) w) = requests w @ (new @ extra)"
    using new(1) extra(1) by (simp add: w1_def)
  moreover have "length (new @ extra) \<le> 2 * length (l # pre)"
    using new(2) extra(2) by simp
  moreover have "list_all (\<lambda>r. hd (req_messages r) \<in> set (map (\<lambda>l. UserDict (strip l)) (l # pre)))
                   (new @ extra)"
    using new(3) extra(3) by (auto simp: list_all_iff)
  ultimately show ?case by blast
qed

lemma chat_loop_run_turns:
  assumes "list_all (\<lambda>l. lower (strip l) \<noteq> ''quit'') pre" and "lower (strip final) = ''quit''"
  shows "chat_loop E tools (pre @ final # post) w = Some (run_turns E tools pre w)"
  using assms(1)
proof (induction pre arbitrary: w)
  case Nil
  with assms(2) show ?case by (simp add: chat_loop_Cons)
next
  case (Cons l pre)
  then show ?case by (simp add: chat_loop_Cons)
qed

text \<open>C8, amended: only the quit sentinel ends the run. Input without it never brings
  the loop to its end. With it, the run ends at the first sentinel in the world that
  the turns of the lines before it leave: no completion request is issued for the
  sentinel or for a line after it, and every line before it, an empty one included,
  starts a turn whose first completion request carries the stripped line as the user
  message.\<close>

theorem only_quit_ends_run:
  assumes "list_all (\<lambda>l. lower (strip l) \<noteq> ''quit'') pre"
  shows "chat_loop E tools pre w = None
         \<and> (lower (strip final) = ''quit'' \<longrightarrow>
              (\<exists>w' extra. chat_loop E tools (pre @ final # post) w = Some w'
                 \<and> requests w' = requests w @ extra
                 \<and> subseq (map (\<lambda>l. first_request tools (strip l)) pre) extra)
              \<and> chat_loop E tools (final # post) w = Some w
              \<and> chat_loop E tools (pre @ final # post) w = Some (run_turns E tools pre w)
              \<and> (\<exists>extra. requests (run_turns E tools pre w) = requests w @ extra
                    \<and> length extra \<le> 2 * length pre
                    \<and> list_all (\<lambda>r. hd (req_messages r)
                                   \<in> set (map (\<lambda>l. UserDict (strip l)) pre)) extra))"
proof -
  have "chat_loop E tools pre w = None"
  proof (cases "chat_loop E tools pre w")
    case (Some w')
    from chat_loop_Some_quit [OF this] assms show ?thesis
      by (auto simp: list_all_iff)
  qed simp
  moreover have "chat_loop E tools (final # post) w = Some w" if "lower (strip final) = ''quit''"
    using that by (simp add: chat_loop_Cons)
  ultimately show ?thesis
    using chat_loop_until_quit [OF assms] chat_loop_run_turns [OF assms]
      run_turns_requests [of E tools pre w]
    by blast
qed

lemma plain_turn_any:
  "process_query plain_env [] q w =
     (Inr [AssistantDict (Some ''hello'')], [UserDict q], asked [] q w)"
  by (simp add: process_query_def complete_def plain_env_def says_def asked_def first_request_def Let_def)

lemma empty_line_run:
  "chat_loop plain_env [] ['''', '' Quit '', ''later''] world0 =
     Some \<lparr>requests = [first_request [] ''''], invocations = []\<rparr>"
proof -
  have s: "strip '''' = ''''" "lower '''' = ''''" "lower (strip '' Quit '') = ''quit''"
    by code_simp+
  show ?thesis
    by (simp add: chat_loop_Cons s plain_turn_any asked_def world0_def)
qed

text \<open>An empty line, then the sentinel.\<close>

theorem only_quit_ends_run_witness:
  "chat_loop plain_env [] [''''] world0 = None
   \<and> chat_loop plain_env [] ['' Quit '', ''later''] world0 = Some world0
   \<and> chat_loop plain_env [] ['''', '' Quit '', ''later''] world0 =
       Some \<lparr>requests = [first_request [] ''''], invocations = []\<rparr>
   \<and> (\<exists>w' extra. chat_loop plain_env [] ['''', '' Quit '', ''later''] world0 = Some w'
         \<and> requests w' = requests world0 @ extra
         \<and> subseq [first_request [] ''''] extra)"
proof -
  have pre: "list_all (\<lambda>l. lower (strip l) \<noteq> ''quit'') ['''']"
    by code_simp
  have fin: "lower (strip '' Quit '') = ''quit''"
    by code_simp
  have s: "strip '''' = ''''"
    by code_simp
  note run = only_quit_ends_run [OF pre, of plain_env "[]" world0 "'' Quit ''" "[''later'']"]
  from run have a: "chat_loop plain_env [] [''''] world0 = None"
    by blast
  from run fin have b: "chat_loop plain_env [] ['' Quit '', ''later''] world0 = Some world0"
    by blast
  from run fin have "chat_loop plain_env [] ([''''] @ '' Quit '' # [''later'']) world0
      = Some (run_turns plain_env [] [''''] world0)"
    by blast
  then have c: "chat_loop plain_env [] ['''', '' Quit '', ''later''] world0 =
       Some \<lparr>requests = [first_request [] ''''], invocations = []\<rparr>"
    by (simp add: s plain_turn_any asked_def world0_def)
  from run fin have "\<exists>w' extra. chat_loop plain_env [] ([''''] @ '' Quit '' # [''later'']) world0 = Some w'
         \<and> requests w' = requests world0 @ extra
         \<and> subseq (map (\<lambda>l. first_request [] (strip l)) ['''']) extra"
    by blast
  then have d: "\<exists>w' extra. chat_loop plain_env [] ['''', '' Quit '', ''later''] world0 = Some w'
         \<and> requests w' = requests world0 @ extra
         \<and> subseq [first_request [] ''''] extra"
    by (simp add: s)
  from a b c d show ?thesis by blast
qed

text \<open>C8 as stated fails: an empty line starts a turn with an empty user message, and the
  run ends at the sentinel that follows, not at the empty line.\<close>

theorem empty_line_counterexample:
  "chat_loop plain_env [] ['''', '' Quit '', ''later''] world0 =
     Some \<lparr>requests = [first_request [] ''''], invocations = []\<rparr>
   \<and> req_messages (first_request [] '''') = [UserDict '''']
   \<and> chat_loop plain_env [] [''''] world0 = None"
proof -
  have "chat_loop plain_env [] [''''] world0 = chat_loop plain_env [] [] (asked [] '''' world0)"
  proof -
    have s: "strip '''' = ''''" "lower '''' = ''''" by code_simp+
    show ?thesis by (simp add: chat_loop_Cons s plain_turn_any)
  qed
  then show ?thesis
    by (simp add: empty_line_run chat_loop_Nil first_request_def)
qed

section \<open>Properties of the server\<close>














lemmas server_eval =
  get_pokemon_stats_def stats_try_def stats_except_def
  get_pokemon_abilities_def abilities_guarded_def abilities_try_def abilities_of_data_def
  abilities_except_def http_get_def raise_for_status_def
  not_found_http_def timeout_http_def bare_http_def charizard_http_def ok_response_def

lemma clean_names:
  "strip ''missingno'' = ''missingno''" "strip (lower ''missingno'') = ''missingno''"
  "strip ''charizard'' = ''charizard''" "strip (lower ''charizard'') = ''charizard''"
  "strip ''Pikachu'' = ''Pikachu''" "strip (lower ''Pikachu'') = ''pikachu''"
  "strip ''pikachu'' = ''pikachu''" "strip (lower ''pikachu'') = ''pikachu''"
  "strip '' Charizard'' = ''Charizard''" "strip (lower '' Charizard'') = ''charizard''"
  "strip '' '' = []" "strip (lower '' '') = []"
  by code_simp+







text \<open>C6: the \<open>ValueError\<close> that lines 42 and 151 raise for status 404 is raised inside
  the \<open>try\<close> block, so the last handler (lines 123 and 210) catches it and raises a
  plain \<open>Exception\<close> that reports an unexpected error: the class of the error raised
  for a missing key. A timeout is raised as a \<open>RequestException\<close>, and the
  \<open>ValueError\<close> of line 140, raised outside the \<open>try\<close> block, reaches the caller as
  it is.\<close>

theorem not_found_raised_as_unexpected:
  "get_pokemon_stats not_found_http (StrArg ''missingno'') =
     (Inl (Exn PyException
        (''An unexpected error occurred while processing '' @ Pokemon @ '' stats: ''
         @ Pokemon @ '' '' @ quoted ''missingno''
         @ '' not found. Please check the spelling and try again.'')),
      [pokemon_url ''missingno''])
   \<and> get_pokemon_abilities not_found_http (StrArg ''missingno'') =
     (Inl (Exn PyException
        (''An unexpected error occurred: '' @ Pokemon @ '' '' @ quoted ''missingno''
         @ '' not found'')),
      [pokemon_url ''missingno''])
   \<and> get_pokemon_stats bare_http (StrArg ''charizard'') =
     (Inl (Exn PyException
        (''Unexpected API response format. Missing expected field: '' @ quoted ''stats'')),
      [pokemon_url ''charizard''])
   \<and> get_pokemon_stats timeout_http (StrArg ''charizard'') =
     (Inl (Exn RequestException
        (''Request timed out while fetching '' @ Pokemon @ '' data. Please try again.'')),
      [pokemon_url ''charizard''])
   \<and> get_pokemon_stats not_found_http (StrArg []) =
     (Inl (Exn ValueError ''Pokemon name cannot be empty''), [])"
  by (simp add: server_eval clean_names stats_of_data_def)

lemma is_space_lower_char: "is_space (lower_char c) = is_space c"
proof -
  have "(of_char c :: nat) < 256" by simp
  then show ?thesis
    by (auto simp: is_space_def lower_char_def Let_def)
qed

lemma is_space_o_lower_char: "is_space \<circ> lower_char = is_space"
  by (rule ext) (simp add: is_space_lower_char)

lemma strip_lower: "strip (lower s) = lower (strip s)"
  by (simp add: strip_def lower_def dropWhile_map rev_map is_space_o_lower_char)

lemma strip_lower_Nil: "(strip (lower s) = []) = (strip s = [])"
  by (simp add: strip_lower) (simp add: lower_def)

lemma strip_Nil: "strip [] = []"
  by (simp add: strip_def)

text \<open>C10, amended: two string arguments that agree once lowercased and stripped make
  \<open>get_pokemon_stats\<close> request the same URLs, and return or raise the same unless
  the upstream answers 404; if the cleaned name is not empty, they make
  \<open>get_pokemon_abilities\<close> request the same URLs and return or raise the same.\<close>

theorem cleaned_name_decides:
  assumes same: "strip (lower a) = strip (lower b)"
  shows "snd (get_pokemon_stats H (StrArg a)) = snd (get_pokemon_stats H (StrArg b))
         \<and> ((\<forall>response. H 0 (pokemon_url (strip (lower a))) = Inr response
                \<longrightarrow> status_code response \<noteq> 404)
              \<longrightarrow> get_pokemon_stats H (StrArg a) = get_pokemon_stats H (StrArg b))
         \<and> (strip (lower a) \<noteq> []
              \<longrightarrow> get_pokemon_abilities H (StrArg a) = get_pokemon_abilities H (StrArg b))"
proof -
  have blank: "(strip a = []) = (strip b = [])"
    using same strip_lower_Nil [of a] strip_lower_Nil [of b] by simp
  have logs: "snd (get_pokemon_stats H (StrArg a)) = snd (get_pokemon_stats H (StrArg b))"
    using blank
    by (auto simp: get_pokemon_stats_def stats_try_def http_get_def strip_Nil same
             split: prod.splits sum.splits)
  have stats: "get_pokemon_stats H (StrArg a) = get_pokemon_stats H (StrArg b)"
    if "\<forall>response. H 0 (pokemon_url (strip (lower a))) = Inr response
          \<longrightarrow> status_code response \<noteq> 404"
    using blank that
    by (auto simp: get_pokemon_stats_def stats_try_def http_get_def strip_Nil same [symmetric]
             split: prod.splits sum.splits)
  have abil: "get_pokemon_abilities H (StrArg a) = get_pokemon_abilities H (StrArg b)"
    if "strip (lower a) \<noteq> []"
  proof -
    from that same have "a \<noteq> []" "b \<noteq> []"
      by (auto simp: strip_Nil lower_def)
    then show ?thesis by (simp add: get_pokemon_abilities_def same)
  qed
  from logs stats abil show ?thesis by blast
qed

text \<open>Two spellings of one name, against an upstream that answers 200 and one that answers
  404.\<close>

theorem cleaned_name_decides_witness:
  "strip (lower ''Pikachu'') = strip (lower ''pikachu'')
   \<and> get_pokemon_stats charizard_http (StrArg ''Pikachu'')
       = get_pokemon_stats charizard_http (StrArg ''pikachu'')
   \<and> get_pokemon_abilities charizard_http (StrArg ''Pikachu'')
       = get_pokemon_abilities charizard_http (StrArg ''pikachu'')
   \<and> snd (get_pokemon_stats not_found_http (StrArg ''Pikachu''))
       = snd (get_pokemon_stats not_found_http (StrArg ''pikachu''))"
proof -
  have same: "strip (lower ''Pikachu'') = strip (lower ''pikachu'')"
    by (simp add: clean_names)
  have ok: "\<forall>response. charizard_http 0 (pokemon_url (strip (lower ''Pikachu''))) = Inr response
              \<longrightarrow> status_code response \<noteq> 404"
    by (auto simp: charizard_http_def ok_response_def)
  have ne: "strip (lower ''Pikachu'') \<noteq> []"
    by (simp add: clean_names)
  from cleaned_name_decides [OF same, of charizard_http] cleaned_name_decides [OF same, of not_found_http]
    ok ne same
  show ?thesis by blast
qed

text \<open>C10 as stated fails: on status 404 the message of \<open>get_pokemon_stats\<close> quotes the
  argument as it was given (line 152), so two spellings of one name raise different
  errors.\<close>

theorem raw_name_in_message_counterexample:
  "strip (lower ''Pikachu'') = strip (lower ''pikachu'')
   \<and> get_pokemon_stats not_found_http (StrArg ''Pikachu'')
       \<noteq> get_pokemon_stats not_found_http (StrArg ''pikachu'')"
  by (simp add: server_eval clean_names quoted_def)

text \<open>A name of whitespace only passes the test of line 26, which precedes the stripping
  of line 30: \<open>get_pokemon_abilities\<close> then requests the URL with an empty name, where
  \<open>get_pokemon_stats\<close> (line 139) raises before any request.\<close>

lemma blank_name_reaches_upstream:
  "get_pokemon_abilities bare_http (StrArg '' '') =
     (Inl (Exn PyException
        (''Unexpected API response structure. Missing key: '' @ quoted ''abilities'')),
      [pokemon_url []])
   \<and> get_pokemon_stats bare_http (StrArg '' '') =
     (Inl (Exn ValueError ''Pokemon name cannot be empty''), [])"
  by (simp add: server_eval clean_names)

text \<open>C9: on the empty string \<open>get_pokemon_abilities\<close> raises the \<open>ValueError\<close> of line 27,
  and the list of requested URLs is empty whatever the upstream service is.\<close>

theorem empty_name_fails_before_any_request:
  "get_pokemon_abilities H (StrArg []) =
     (Inl (Exn ValueError ''Pokemon identifier cannot be empty''), [])"
  by (simp add: get_pokemon_abilities_def)

end
